theory Spec2Isabelle
  imports Complex_Main "HOL-Library.Char_ord" "HOL-Library.List_Lexorder"
begin

section \<open>Data model\<close>

text \<open>
  A cell of a table or a value of a JSON row: null (\<open>None\<close>/\<open>NaN\<close>), a number or a text.
  Numbers are the rationals the floating-point values denote; arithmetic on them is exact here.
\<close>

datatype cell = Null | Num rat | Str string

text \<open>
  A row of a \<open>DataFrame\<close> gives a cell for every column name; only the names listed in
  \<open>df_columns\<close> are columns of the frame. Every row carries its index label.
\<close>

type_synonym row = "string \<Rightarrow> cell"

record dataframe =
  df_columns :: "string list"
  df_rows :: "(nat \<times> row) list"

text \<open>The exceptions the modelled code can raise.\<close>

datatype error =
    KeyError "string list"
  | TypeError
  | ValueError
  | IndexError
  | HTTPError nat
  | RequestException

definition ebind :: "error + 'a \<Rightarrow> ('a \<Rightarrow> error + 'b) \<Rightarrow> error + 'b" where
  "ebind m f = (case m of Inl e \<Rightarrow> Inl e | Inr x \<Rightarrow> f x)"

section \<open>Record Cleaner (\<open>tools/fetch_dpe_data.py\<close>, \<open>clean_data\<close>)\<close>

text \<open>\<open>df.dropna(subset=cols)\<close>: a missing column raises \<open>KeyError\<close>; a row stays when none
  of its cells in \<open>cols\<close> is null.\<close>

definition dropna :: "string list \<Rightarrow> dataframe \<Rightarrow> error + dataframe" where
  "dropna cols df =
     (case filter (\<lambda>c. c \<notin> set (df_columns df)) cols of
        m # ms \<Rightarrow> Inl (KeyError (m # ms))
      | [] \<Rightarrow> Inr (df\<lparr>df_rows := filter (\<lambda>(i, r). list_all (\<lambda>c. r c \<noteq> Null) cols) (df_rows df)\<rparr>))"

text \<open>\<open>df[c]\<close>: the cells of column \<open>c\<close>, or \<open>KeyError\<close>.\<close>

definition getitem :: "dataframe \<Rightarrow> string \<Rightarrow> error + cell list" where
  "getitem df c =
     (if c \<in> set (df_columns df) then Inr (map (\<lambda>(i, r). r c) (df_rows df))
      else Inl (KeyError [c]))"

text \<open>Comparing one cell with a number: null compares false, a text raises \<open>TypeError\<close>.\<close>

fun cell_gt :: "rat \<Rightarrow> cell \<Rightarrow> error + bool" where
  "cell_gt k Null = Inr False"
| "cell_gt k (Num x) = Inr (x > k)"
| "cell_gt k (Str s) = Inl TypeError"

fun cell_le :: "rat \<Rightarrow> cell \<Rightarrow> error + bool" where
  "cell_le k Null = Inr False"
| "cell_le k (Num x) = Inr (x \<le> k)"
| "cell_le k (Str s) = Inl TypeError"

text \<open>Comparing a column with a number, cell by cell; the first failing cell raises.\<close>

fun series_cmp :: "(cell \<Rightarrow> error + bool) \<Rightarrow> cell list \<Rightarrow> error + bool list" where
  "series_cmp p [] = Inr []"
| "series_cmp p (x # xs) =
     (case p x of
        Inl e \<Rightarrow> Inl e
      | Inr b \<Rightarrow> (case series_cmp p xs of Inl e \<Rightarrow> Inl e | Inr bs \<Rightarrow> Inr (b # bs)))"

text \<open>\<open>df[mask]\<close>: the rows whose mask entry is true.\<close>

definition select_mask :: "dataframe \<Rightarrow> bool list \<Rightarrow> dataframe" where
  "select_mask df msk = df\<lparr>df_rows := map fst (filter snd (zip (df_rows df) msk))\<rparr>"

text \<open>\<open>df[p(df[c])]\<close>.\<close>

definition where_col :: "(cell \<Rightarrow> error + bool) \<Rightarrow> string \<Rightarrow> dataframe \<Rightarrow> error + dataframe" where
  "where_col p c df =
     ebind (getitem df c) (\<lambda>col. ebind (series_cmp p col) (\<lambda>msk. Inr (select_mask df msk)))"

text \<open>\<open>df.reset_index(drop=True)\<close>: the rows keep their order and are numbered from zero.\<close>

definition reset_index :: "dataframe \<Rightarrow> dataframe" where
  "reset_index df = df\<lparr>df_rows := enumerate 0 (map snd (df_rows df))\<rparr>"

definition clean_data :: "dataframe \<Rightarrow> error + dataframe" where
  "clean_data df =
     ebind (dropna [''conso_5_usages_ep'', ''surface_habitable_logement''] df) (\<lambda>df1.
     ebind (where_col (cell_gt 0) ''conso_5_usages_ep'' df1) (\<lambda>df2.
     ebind (where_col (cell_gt 0) ''surface_habitable_logement'' df2) (\<lambda>df3.
     ebind (where_col (cell_le 1000) ''conso_5_usages_par_m2_ep'' df3) (\<lambda>df4.
     Inr (reset_index df4)))))"

text \<open>The row predicate the four steps of \<open>clean_data\<close> amount to.\<close>

definition positive :: "cell \<Rightarrow> bool" where
  "positive c = (case c of Num x \<Rightarrow> x > 0 | _ \<Rightarrow> False)"

definition at_most :: "rat \<Rightarrow> cell \<Rightarrow> bool" where
  "at_most k c = (case c of Num x \<Rightarrow> x \<le> k | _ \<Rightarrow> False)"

definition keeps :: "row \<Rightarrow> bool" where
  "keeps r \<longleftrightarrow>
     positive (r ''conso_5_usages_ep'') \<and> positive (r ''surface_habitable_logement'')
     \<and> at_most 1000 (r ''conso_5_usages_par_m2_ep'')"

text \<open>The row predicate as the specification words it: the third test is on the
  per-unit-area quantity, and nothing is asked of the sign of the size attribute.\<close>

definition keeps_spec :: "row \<Rightarrow> bool" where
  "keeps_spec r \<longleftrightarrow>
     r ''conso_5_usages_ep'' \<noteq> Null \<and> r ''surface_habitable_logement'' \<noteq> Null
     \<and> positive (r ''conso_5_usages_ep'')
     \<and> positive (r ''conso_5_usages_par_m2_ep'')
     \<and> at_most 1000 (r ''conso_5_usages_par_m2_ep'')"

text \<open>A frame the cleaner accepts: it has the three columns, and their cells are numbers
  or null.\<close>

definition numeric_in :: "string \<Rightarrow> dataframe \<Rightarrow> bool" where
  "numeric_in c df \<longleftrightarrow>
     c \<in> set (df_columns df) \<and> list_all (\<lambda>(i, r). case r c of Str s \<Rightarrow> False | _ \<Rightarrow> True) (df_rows df)"

definition cleanable :: "dataframe \<Rightarrow> bool" where
  "cleanable df \<longleftrightarrow>
     numeric_in ''conso_5_usages_ep'' df \<and> numeric_in ''surface_habitable_logement'' df
     \<and> numeric_in ''conso_5_usages_par_m2_ep'' df"

text \<open>Small frames with the three columns the cleaner reads, for the examples below.\<close>

definition row3 :: "cell \<Rightarrow> cell \<Rightarrow> cell \<Rightarrow> row" where
  "row3 ep surface ratio =
     (\<lambda>c. Null)(''conso_5_usages_ep'' := ep, ''surface_habitable_logement'' := surface,
        ''conso_5_usages_par_m2_ep'' := ratio)"

definition frame3 :: "row list \<Rightarrow> dataframe" where
  "frame3 rs =
     \<lparr>df_columns = [''conso_5_usages_ep'', ''surface_habitable_logement'', ''conso_5_usages_par_m2_ep''],
      df_rows = enumerate 0 rs\<rparr>"

section \<open>Page Fetcher and Pagination Driver (\<open>tools/fetch_dpe_data.py\<close>)\<close>

definition SELECTED_COLUMNS :: "string list" where
  "SELECTED_COLUMNS =
    [''numero_dpe'', ''date_derniere_modification_dpe'', ''date_etablissement_dpe'',
     ''modele_dpe'', ''version_dpe'', ''methode_application_dpe'', ''etiquette_dpe'',
     ''etiquette_ges'', ''type_batiment'', ''annee_construction'', ''periode_construction'',
     ''type_installation_chauffage'', ''type_installation_ecs'', ''hauteur_sous_plafond'',
     ''nombre_niveau_logement'', ''surface_habitable_logement'', ''classe_inertie_batiment'',
     ''classe_altitude'', ''zone_climatique'', ''code_departement_ban'', ''code_region_ban'',
     ''identifiant_ban'', ''coordonnee_cartographique_x_ban'',
     ''coordonnee_cartographique_y_ban'', ''score_ban'', ''statut_geocodage'',
     ''code_postal_brut'', ''deperditions_enveloppe'', ''deperditions_ponts_thermiques'',
     ''deperditions_murs'', ''deperditions_planchers_hauts'', ''deperditions_planchers_bas'',
     ''deperditions_portes'', ''deperditions_baies_vitrees'',
     ''deperditions_renouvellement_air'', ''qualite_isolation_enveloppe'',
     ''qualite_isolation_menuiseries'', ''besoin_chauffage'', ''besoin_ecs'',
     ''besoin_refroidissement'', ''apport_interne_saison_chauffe'',
     ''apport_interne_saison_froide'', ''apport_solaire_saison_chauffe'',
     ''apport_solaire_saison_froide'', ''conso_5_usages_ep'', ''conso_5_usages_par_m2_ep'',
     ''conso_chauffage_ep'', ''conso_ecs_ep'', ''conso_refroidissement_ep'',
     ''conso_eclairage_ep'', ''conso_auxiliaires_ep'', ''conso_5 usages_ef'',
     ''conso_5 usages_par_m2_ef'', ''conso_chauffage_ef'', ''conso_ecs_ef'',
     ''conso_refroidissement_ef'', ''conso_eclairage_ef'', ''conso_auxiliaires_ef'',
     ''emission_ges_5_usages'', ''emission_ges_5_usages par_m2'', ''emission_ges_chauffage'',
     ''emission_ges_ecs'', ''emission_ges_refroidissement'', ''emission_ges_eclairage'',
     ''emission_ges_auxiliaires'', ''type_energie_n1'', ''conso_5 usages_ef_energie_n1'',
     ''conso_chauffage_ef_energie_n1'', ''conso_ecs_ef_energie_n1'',
     ''cout_total_5_usages_energie_n1'', ''cout_chauffage_energie_n1'',
     ''cout_ecs_energie_n1'', ''emission_ges_5_usages_energie_n1'',
     ''emission_ges_chauffage_energie_n1'', ''emission_ges_ecs_energie_n1'',
     ''cout_total_5_usages'', ''cout_chauffage'', ''cout_ecs'', ''cout_refroidissement'',
     ''cout_eclairage'', ''cout_auxiliaires'', ''type_energie_principale_chauffage'',
     ''type_energie_principale_ecs'']"

definition DATE_FILTER :: string where
  "DATE_FILTER = ''date_derniere_modification_dpe:[2025-01-01 TO 2025-12-31]''"

definition PAGE_SIZE :: int where
  "PAGE_SIZE = 10000"

text \<open>\<open>_COLUMNS_FOR_SELECT\<close>: the selected columns whose name has no space.\<close>

definition COLUMNS_FOR_SELECT :: "string list" where
  "COLUMNS_FOR_SELECT = filter (\<lambda>c. CHR '' '' \<notin> set c) SELECTED_COLUMNS"

text \<open>\<open>sep.join(xs)\<close>.\<close>

fun join :: "string \<Rightarrow> string list \<Rightarrow> string" where
  "join sep [] = []"
| "join sep [x] = x"
| "join sep (x # y # ys) = x @ sep @ join sep (y # ys)"

text \<open>A row of the service's JSON answer is a dictionary from column names to values.\<close>

type_synonym json_row = "string \<rightharpoonup> cell"

text \<open>The query parameters of one GET request; \<open>req_after\<close> is absent on a request
  without cursor.\<close>

record request =
  req_select :: string
  req_size :: int
  req_sort :: string
  req_qs :: string
  req_after :: "string option"

text \<open>
  The JSON object of a successful answer. The continuation URL under \<open>next\<close> is given by
  the (name, value) pairs of its query string, which is all the code reads of it; it is
  \<open>None\<close> when the answer has no \<open>next\<close> or an empty one.
\<close>

record response =
  results :: "json_row list"
  total :: "int option"
  next_url :: "(string \<times> string) list option"

text \<open>
  The data service is outside the program: a state of its own, and for every request either
  a failure (\<open>requests.get\<close> or \<open>raise_for_status\<close> raising) or a response.
\<close>

type_synonym 's service = "'s \<Rightarrow> request \<Rightarrow> (error + response) \<times> 's"

text \<open>Python's truth value of a cursor: \<open>None\<close> and the empty string are false.\<close>

definition truthy :: "string option \<Rightarrow> bool" where
  "truthy a = (case a of None \<Rightarrow> False | Some v \<Rightarrow> v \<noteq> [])"

text \<open>\<open>parse_qs(urlparse(next_url).query).get("after", [None])[0]\<close>: \<open>parse_qs\<close> drops blank
  values, and the first value named \<open>after\<close> is taken.\<close>

definition next_after :: "(string \<times> string) list option \<Rightarrow> string option" where
  "next_after nxt =
     (case nxt of
        None \<Rightarrow> None
      | Some q \<Rightarrow>
          (case filter (\<lambda>(k, v). k = ''after'' \<and> v \<noteq> []) q of
             [] \<Rightarrow> None
           | (k, v) # _ \<Rightarrow> Some v))"

text \<open>The \<open>params\<close> dictionary of \<open>fetch_page\<close>: \<open>after\<close> is sent only when it is true.\<close>

definition params :: "string option \<Rightarrow> int \<Rightarrow> request" where
  "params after size' =
     \<lparr>req_select = join '','' COLUMNS_FOR_SELECT,
      req_size = min size' PAGE_SIZE,
      req_sort = ''numero_dpe'',
      req_qs = DATE_FILTER,
      req_after = (if truthy after then after else None)\<rparr>"

text \<open>One request. A failure of the service is returned as it is: there is no second
  attempt. Otherwise the rows and the cursor of the continuation URL are returned.\<close>

definition fetch_page ::
  "'s service \<Rightarrow> 's \<Rightarrow> string option \<Rightarrow> int \<Rightarrow> (error + json_row list \<times> string option) \<times> 's" where
  "fetch_page svc s after size' =
     (case svc s (params after size') of
        (Inl e, s') \<Rightarrow> (Inl e, s')
      | (Inr data, s') \<Rightarrow> (Inr (results data, next_after (next_url data)), s'))"

text \<open>
  The \<open>while\<close> loop of \<open>fetch_dpe_data\<close>, from the state \<open>(all_rows, after)\<close>. The pause
  between two pages (\<open>time.sleep(1)\<close>) changes no data and is left out.
\<close>

function fetch_loop ::
  "'s service \<Rightarrow> int \<Rightarrow> json_row list \<Rightarrow> string option \<Rightarrow> 's \<Rightarrow> (error + json_row list) \<times> 's" where
  "fetch_loop svc n_rows all_rows after s =
     (if int (length all_rows) < n_rows then
        (let remaining = n_rows - int (length all_rows);
             size' = min remaining PAGE_SIZE
         in case fetch_page svc s after size' of
              (Inl e, s') \<Rightarrow> (Inl e, s')
            | (Inr (rows, after'), s') \<Rightarrow>
                if rows = [] then (Inr all_rows, s')
                else if \<not> truthy after' then (Inr (all_rows @ rows), s')
                else fetch_loop svc n_rows (all_rows @ rows) after' s')
      else (Inr all_rows, s))"
  by pat_completeness auto
termination
  by (relation "measure (\<lambda>(svc, n_rows, all_rows, after, s). nat (n_rows - int (length all_rows)))")
     auto

declare fetch_loop.simps [simp del]

text \<open>\<open>c in pd.DataFrame(all_rows).columns\<close>: some row has the key \<open>c\<close>.\<close>

definition has_column :: "json_row list \<Rightarrow> string \<Rightarrow> bool" where
  "has_column all_rows c = list_ex (\<lambda>r. r c \<noteq> None) all_rows"

text \<open>\<open>pd.DataFrame(all_rows)[cols]\<close>: one row per dictionary, numbered from zero; a key a
  dictionary lacks gives a null cell.\<close>

definition frame_row :: "string list \<Rightarrow> json_row \<Rightarrow> row" where
  "frame_row cols r = (\<lambda>c. if c \<in> set cols then (case r c of None \<Rightarrow> Null | Some v \<Rightarrow> v) else Null)"

definition DataFrame :: "json_row list \<Rightarrow> string list \<Rightarrow> dataframe" where
  "DataFrame all_rows cols = \<lparr>df_columns = cols, df_rows = enumerate 0 (map (frame_row cols) all_rows)\<rparr>"

definition fetch_dpe_data :: "'s service \<Rightarrow> 's \<Rightarrow> int \<Rightarrow> (error + dataframe) \<times> 's" where
  "fetch_dpe_data svc s n_rows =
     (case fetch_loop svc n_rows [] None s of
        (Inl e, s') \<Rightarrow> (Inl e, s')
      | (Inr all_rows, s') \<Rightarrow>
          (let cols_present = filter (has_column all_rows) SELECTED_COLUMNS
           in (Inr (DataFrame all_rows cols_present), s')))"

text \<open>A service observed: every exchange (the request, and the failure or the response it
  got) is appended to a log kept beside the service's own state.\<close>

type_synonym exchange = "request \<times> (error + response)"

definition recording :: "'s service \<Rightarrow> ('s \<times> exchange list) service" where
  "recording svc = (\<lambda>(s, lg) req. case svc s req of (reply, s1) \<Rightarrow> (reply, (s1, lg @ [(req, reply)])))"

text \<open>
  The cursor discipline of a run asked for \<open>n_rows\<close> records, read off the log of its
  exchanges: with \<open>acc\<close> records accumulated and \<open>cur\<close> the cursor in hand, the next request
  carries \<open>cur\<close> and asks for \<open>min (n_rows - acc) PAGE_SIZE\<close> records; a request follows a
  response only when that response returned a cursor, which is then the cursor in hand.
\<close>

fun chained :: "int \<Rightarrow> nat \<Rightarrow> string option \<Rightarrow> exchange list \<Rightarrow> bool" where
  "chained n_rows acc cur [] = True"
| "chained n_rows acc cur ((req, reply) # rest) =
     (req_after req = cur \<and> req_size req = min (n_rows - int acc) PAGE_SIZE \<and>
      (case reply of
         Inl e \<Rightarrow> rest = []
       | Inr data \<Rightarrow>
           rest = [] \<or>
           (next_after (next_url data) \<noteq> None \<and>
            chained n_rows (acc + length (results data)) (next_after (next_url data)) rest)))"

text \<open>The sort key of a record: its \<open>numero_dpe\<close>, empty when it has none.\<close>

definition numero_dpe :: "json_row \<Rightarrow> string" where
  "numero_dpe r = (case r ''numero_dpe'' of Some (Str k) \<Rightarrow> k | _ \<Rightarrow> [])"

text \<open>
  Modelled from the spec: the simulated data service of the testable properties, which the
  repository does not contain. It holds the records \<open>recs\<close> in sort-key order and has the
  page cap \<open>P\<close>. A request without cursor starts at the first record, a request with cursor
  \<open>c\<close> after the records whose key is at most \<open>c\<close>; the page is the next
  \<open>min size P\<close> records; the continuation URL carries the key of the page's last record and
  is present while more records remain.
\<close>

definition sim_service :: "json_row list \<Rightarrow> nat \<Rightarrow> unit service" where
  "sim_service recs P s req =
     (let rest = (case req_after req of None \<Rightarrow> recs | Some c \<Rightarrow> filter (\<lambda>r. c < numero_dpe r) recs);
          page = take (min (nat (req_size req)) P) rest
      in (Inr \<lparr>results = page,
               total = Some (int (length recs)),
               next_url = (if page \<noteq> [] \<and> length page < length rest
                           then Some [(''after'', numero_dpe (last page))] else None)\<rparr>, s))"



text \<open>Example data: a record with the key \<open>k\<close>, and a service whose second answer is
  the HTTP error 503.\<close>

definition ex_record :: "string \<Rightarrow> json_row" where
  "ex_record k = [''numero_dpe'' \<mapsto> Str k]"

definition flaky :: "nat service" where
  "flaky k req =
     (if k = 1 then Inl (HTTPError 503)
      else Inr \<lparr>results = [ex_record ''k1''], total = None, next_url = Some [(''after'', ''k1'')]\<rparr>,
      Suc k)"

section \<open>Leakage Guard and Adaptive Stratified Partitioner (\<open>tools/setup_data.py\<close>, \<open>main\<close>)\<close>

definition TARGET :: string where
  "TARGET = ''etiquette_dpe''"

definition META_COLS :: "string list" where
  "META_COLS =
    [''numero_dpe'', ''date_derniere_modification_dpe'', ''date_etablissement_dpe'',
     ''modele_dpe'', ''version_dpe'', ''methode_application_dpe'', ''identifiant_ban'',
     ''score_ban'', ''statut_geocodage'']"

definition LEAKY_COLS :: "string list" where
  "LEAKY_COLS =
    [''conso_5_usages_ep'', ''conso_5_usages_par_m2_ep'', ''conso_chauffage_ep'',
     ''conso_ecs_ep'', ''conso_refroidissement_ep'', ''conso_eclairage_ep'',
     ''conso_auxiliaires_ep'', ''conso_5 usages_ef'', ''conso_5 usages_par_m2_ef'',
     ''conso_chauffage_ef'', ''conso_ecs_ef'', ''conso_refroidissement_ef'',
     ''conso_eclairage_ef'', ''conso_auxiliaires_ef'', ''emission_ges_5_usages'',
     ''emission_ges_5_usages par_m2'', ''emission_ges_chauffage'', ''emission_ges_ecs'',
     ''emission_ges_refroidissement'', ''emission_ges_eclairage'',
     ''emission_ges_auxiliaires'', ''etiquette_ges'', ''conso_5 usages_ef_energie_n1'',
     ''conso_chauffage_ef_energie_n1'', ''conso_ecs_ef_energie_n1'',
     ''emission_ges_5_usages_energie_n1'', ''emission_ges_chauffage_energie_n1'',
     ''emission_ges_ecs_energie_n1'', ''cout_total_5_usages_energie_n1'',
     ''cout_chauffage_energie_n1'', ''cout_ecs_energie_n1'', ''cout_total_5_usages'',
     ''cout_chauffage'', ''cout_ecs'', ''cout_refroidissement'', ''cout_eclairage'',
     ''cout_auxiliaires'']"

subsection \<open>Feature columns\<close>

definition cols_to_drop :: "string set" where
  "cols_to_drop = set (META_COLS @ LEAKY_COLS @ [TARGET])"

definition feature_cols :: "string list \<Rightarrow> string list" where
  "feature_cols columns = filter (\<lambda>c. c \<notin> cols_to_drop) columns"

text \<open>\<open>df[cols]\<close> for a list of columns: a missing one raises \<open>KeyError\<close>.\<close>

definition getitem_cols :: "dataframe \<Rightarrow> string list \<Rightarrow> error + dataframe" where
  "getitem_cols df cols =
     (case filter (\<lambda>c. c \<notin> set (df_columns df)) cols of
        m # ms \<Rightarrow> Inl (KeyError (m # ms))
      | [] \<Rightarrow> Inr \<lparr>df_columns = cols,
                  df_rows = map (\<lambda>(i, r). (i, \<lambda>c. if c \<in> set cols then r c else Null)) (df_rows df)\<rparr>)"

subsection \<open>Python's conversions\<close>

text \<open>
  Two conversions of Python are parameters of the model, since their grammar is no part of
  this program: \<open>float(s)\<close> for a text \<open>s\<close> (\<open>None\<close> when it raises \<open>ValueError\<close>) and
  \<open>str(x)\<close> for a float \<open>x\<close>.
\<close>

record builtins =
  py_float :: "string \<Rightarrow> rat option"
  py_str :: "rat \<Rightarrow> string"

text \<open>\<open>str(i)\<close> for an integer \<open>i\<close>: its decimal digits, with a minus sign below zero.\<close>

function str_nat :: "nat \<Rightarrow> string" where
  "str_nat n =
     (if n < 10 then [''0123456789'' ! n] else str_nat (n div 10) @ [''0123456789'' ! (n mod 10)])"
  by pat_completeness auto
termination
  by (relation "measure id") auto

declare str_nat.simps [simp del]

definition str_int :: "int \<Rightarrow> string" where
  "str_int i = (if i < 0 then CHR ''-'' # str_nat (nat (- i)) else str_nat (nat i))"

text \<open>\<open>round(x)\<close>: the nearest integer, a tie going to the even one.\<close>

definition py_round :: "rat \<Rightarrow> int" where
  "py_round x =
     (let f = \<lfloor>x\<rfloor>; d = x - of_int f
      in if d < 1 / 2 then f else if 1 / 2 < d then f + 1 else if even f then f else f + 1)"

text \<open>A function applied to every cell of a column; the first cell it fails on raises.\<close>

fun emap :: "('a \<Rightarrow> error + 'b) \<Rightarrow> 'a list \<Rightarrow> error + 'b list" where
  "emap f [] = Inr []"
| "emap f (x # xs) =
     (case f x of
        Inl e \<Rightarrow> Inl e
      | Inr y \<Rightarrow> (case emap f xs of Inl e \<Rightarrow> Inl e | Inr ys \<Rightarrow> Inr (y # ys)))"

subsection \<open>The region key\<close>

text \<open>\<open>.fillna(v)\<close> on one cell.\<close>

definition fillna :: "cell \<Rightarrow> cell \<Rightarrow> cell" where
  "fillna v c = (if c = Null then v else c)"

text \<open>\<open>.astype(float)\<close> on one cell, for a column that is cast to \<open>int\<close> next: a text is
  parsed, and a null (which would stay \<open>NaN\<close> and fail the cast to \<open>int\<close>) raises.\<close>

fun astype_float :: "builtins \<Rightarrow> cell \<Rightarrow> error + rat" where
  "astype_float py (Num x) = Inr x"
| "astype_float py (Str s) = (case py_float py s of None \<Rightarrow> Inl ValueError | Some x \<Rightarrow> Inr x)"
| "astype_float py Null = Inl ValueError"

text \<open>\<open>.astype(int)\<close> on a float: the fractional part is dropped. The float is taken to have
  an integer part within 64 bits.\<close>

definition astype_int :: "rat \<Rightarrow> int" where
  "astype_int x = (if 0 \<le> x then \<lfloor>x\<rfloor> else \<lceil>x\<rceil>)"

text \<open>\<open>df["code_region_ban"].fillna(-1).astype(float).astype(int).astype(str)\<close>.\<close>

definition region_key :: "builtins \<Rightarrow> cell \<Rightarrow> error + string" where
  "region_key py c = ebind (astype_float py (fillna (Num (- 1)) c)) (\<lambda>x. Inr (str_int (astype_int x)))"

definition region_keys :: "builtins \<Rightarrow> dataframe \<Rightarrow> error + string list" where
  "region_keys py df = ebind (getitem df ''code_region_ban'') (emap (region_key py))"

subsection \<open>The stratification key\<close>

text \<open>\<open>s.value_counts(normalize=True)\<close>: for every distinct non-null value of the column, its
  share of the non-null cells. (The order of the shares, which pandas sorts, is not used.)\<close>

definition value_counts_normalize :: "cell list \<Rightarrow> rat list" where
  "value_counts_normalize col =
     (let xs = filter (\<lambda>c. c \<noteq> Null) col
      in map (\<lambda>v. of_nat (count_list xs v) / of_nat (length xs)) (remdups xs))"

text \<open>\<open>.min()\<close> of the shares; \<open>None\<close> stands for the \<open>NaN\<close> of an empty column.\<close>

definition min_share :: "cell list \<Rightarrow> rat option" where
  "min_share col =
     (case value_counts_normalize col of [] \<Rightarrow> None | p # ps \<Rightarrow> Some (fold min ps p))"

text \<open>\<open>.astype(str)\<close> on one cell of the label column.\<close>

fun astype_str :: "builtins \<Rightarrow> cell \<Rightarrow> string" where
  "astype_str py (Str s) = s"
| "astype_str py (Num x) = py_str py x"
| "astype_str py Null = ''nan''"

text \<open>What the run prints about its choice.\<close>

datatype message =
    MinimumN int
  | JointStratification
  | DatasetTooSmall nat int
  | FallbackLabelOnly

record choice =
  min_n_required :: int
  strat :: "cell list"
  printed :: "message list"

text \<open>
  Lines 143 to 158 of \<open>main\<close>: the region key, the two minimal shares, the rounded
  minimal size, and the key chosen. \<open>round\<close> raises \<open>ValueError\<close> on \<open>NaN\<close>, which is what an
  empty column of shares gives.
\<close>

definition choose_strat :: "builtins \<Rightarrow> dataframe \<Rightarrow> error + choice" where
  "choose_strat py df =
     ebind (region_keys py df) (\<lambda>region.
     ebind (getitem df TARGET) (\<lambda>y_target.
     ebind (getitem df ''code_region_ban'') (\<lambda>region_col.
       case (min_share y_target, min_share region_col) of
         (Some p_label, Some p_region) \<Rightarrow>
           (let min_n = py_round (4 / (p_label * p_region))
            in if int (length (df_rows df)) \<ge> min_n
               then Inr \<lparr>min_n_required = min_n,
                         strat = map2 (\<lambda>l r. Str (astype_str py l @ ''_'' @ r)) y_target region,
                         printed = [MinimumN min_n, JointStratification]\<rparr>
               else Inr \<lparr>min_n_required = min_n,
                         strat = y_target,
                         printed = [MinimumN min_n, DatasetTooSmall (length (df_rows df)) min_n,
                                    FallbackLabelOnly]\<rparr>)
       | _ \<Rightarrow> Inl ValueError)))"

subsection \<open>The two splits\<close>

text \<open>
  \<open>train_test_split\<close> of scikit-learn is outside the program. It is a parameter: from the
  seed, the test share, the stratification column and the number of rows it gives the
  positions of the first part and those of the second (the held-out) part, or raises.
\<close>

type_synonym splitter = "int \<Rightarrow> rat \<Rightarrow> cell list \<Rightarrow> nat \<Rightarrow> error + nat list \<times> nat list"

text \<open>The rows of a frame at the given positions; a position outside the frame raises.\<close>

definition iloc :: "dataframe \<Rightarrow> nat list \<Rightarrow> error + dataframe" where
  "iloc df ps =
     (if list_all (\<lambda>p. p < length (df_rows df)) ps
      then Inr (df\<lparr>df_rows := map (\<lambda>p. df_rows df ! p) ps\<rparr>)
      else Inl IndexError)"

text \<open>\<open>s.loc[labels]\<close> for a column \<open>s\<close> with the index \<open>index\<close>: for every label, in turn,
  the cells of the rows that carry it; a label no row carries raises \<open>KeyError\<close>.\<close>

definition loc :: "nat list \<Rightarrow> cell list \<Rightarrow> nat list \<Rightarrow> error + cell list" where
  "loc index col labels =
     (if list_all (\<lambda>l. l \<in> set index) labels
      then Inr (concat (map (\<lambda>l. map snd (filter (\<lambda>(i, v). i = l) (zip index col))) labels))
      else Inl (KeyError []))"

record outputs =
  X_train :: dataframe
  y_train :: dataframe
  X_test :: dataframe
  y_test :: dataframe
  X_priv :: dataframe
  y_priv :: dataframe
  chosen :: choice

text \<open>
  \<open>main\<close> from its step 4 on, for the frame \<open>df\<close> left by the steps before (the overseas
  departments and the rows without label removed), up to the six frames it writes.
\<close>

definition main :: "builtins \<Rightarrow> splitter \<Rightarrow> int \<Rightarrow> dataframe \<Rightarrow> error + outputs" where
  "main py train_test_split seed df =
     ebind (getitem_cols df (feature_cols (df_columns df))) (\<lambda>X.
     ebind (getitem_cols df [TARGET]) (\<lambda>y.
     ebind (choose_strat py df) (\<lambda>ch.
     ebind (train_test_split seed (3 / 10) (strat ch) (length (df_rows X))) (\<lambda>(train, rem).
     ebind (iloc X train) (\<lambda>X_train'.
     ebind (iloc X rem) (\<lambda>X_rem.
     ebind (iloc y train) (\<lambda>y_train'.
     ebind (iloc y rem) (\<lambda>y_rem.
     ebind (loc (map fst (df_rows df)) (strat ch) (map fst (df_rows X_rem))) (\<lambda>strat_rem.
     ebind (train_test_split seed (1 / 2) strat_rem (length (df_rows X_rem))) (\<lambda>(test, priv).
     ebind (iloc X_rem test) (\<lambda>X_test'.
     ebind (iloc X_rem priv) (\<lambda>X_priv'.
     ebind (iloc y_rem test) (\<lambda>y_test'.
     ebind (iloc y_rem priv) (\<lambda>y_priv'.
       Inr \<lparr>X_train = X_train', y_train = y_train', X_test = X_test', y_test = y_test',
            X_priv = X_priv', y_priv = y_priv', chosen = ch\<rparr>))))))))))))))"

subsection \<open>Conditions on the inputs\<close>

text \<open>The index labels of a frame, in row order.\<close>

definition df_index :: "dataframe \<Rightarrow> nat list" where
  "df_index df = map fst (df_rows df)"


text \<open>What \<open>train_test_split\<close> promises when it returns: the two parts hold every
  position below the number of rows, each once.\<close>

definition partitions :: "splitter \<Rightarrow> bool" where
  "partitions split \<longleftrightarrow>
     (\<forall>seed share key n train test.
        split seed share key n = Inr (train, test) \<longrightarrow>
        distinct (train @ test) \<and> set (train @ test) = {..<n})"

text \<open>Example data: no text is a number; a frame with a label, a region and one feature
  column, from the (label, region) pairs of its rows; and a stand-in for the splitter that
  holds out the first \<open>\<lceil>share * n\<rceil>\<close> positions (at most all) whatever the seed and the key.\<close>

definition no_text :: builtins where
  "no_text = \<lparr>py_float = (\<lambda>s. None), py_str = (\<lambda>x. [])\<rparr>"

definition region_row :: "cell \<times> cell \<Rightarrow> row" where
  "region_row lr = (\<lambda>c. Null)(''etiquette_dpe'' := fst lr, ''code_region_ban'' := snd lr,
     ''surface_habitable_logement'' := Num 50)"

definition region_frame :: "(cell \<times> cell) list \<Rightarrow> dataframe" where
  "region_frame lrs =
     \<lparr>df_columns = [''etiquette_dpe'', ''code_region_ban'', ''surface_habitable_logement''],
      df_rows = enumerate 0 (map region_row lrs)\<rparr>"

definition first_held_out :: splitter where
  "first_held_out seed share key n =
     (let k = min n (nat \<lceil>share * of_nat n\<rceil>) in Inr ([k..<n], [0..<k]))"

section \<open>Properties of the Record Cleaner\<close>

lemma series_cmp_Inr:
  "series_cmp p xs = Inr bs \<Longrightarrow> bs = map (\<lambda>x. p x = Inr True) xs"
  by (induction xs arbitrary: bs) (auto split: sum.splits)

lemma series_cmp_total:
  "list_all (\<lambda>x. \<exists>b. p x = Inr b) xs \<Longrightarrow> \<exists>bs. series_cmp p xs = Inr bs"
  by (induction xs) (auto split: sum.splits)

lemma mask_filter: "map fst (filter snd (zip xs (map p xs))) = filter p xs"
  by (induction xs) auto

lemma where_col_Inr:
  assumes "where_col p c df = Inr d"
  shows "d = df\<lparr>df_rows := filter (\<lambda>(i, r). p (r c) = Inr True) (df_rows df)\<rparr> \<and> c \<in> set (df_columns df)"
proof -
  from assms obtain col msk where g: "getitem df c = Inr col" and s: "series_cmp p col = Inr msk"
    and d: "d = select_mask df msk"
    by (auto simp: where_col_def ebind_def split: sum.splits)
  from g have c: "c \<in> set (df_columns df)" and col: "col = map (\<lambda>(i, r). r c) (df_rows df)"
    by (auto simp: getitem_def split: if_splits)
  from series_cmp_Inr[OF s] col
  have "msk = map (\<lambda>ir. p (snd ir c) = Inr True) (df_rows df)"
    by (simp add: case_prod_unfold)
  then have "map fst (filter snd (zip (df_rows df) msk)) = filter (\<lambda>ir. p (snd ir c) = Inr True) (df_rows df)"
    by (simp add: mask_filter)
  with d c show ?thesis by (simp add: select_mask_def case_prod_unfold)
qed

lemma where_col_total:
  assumes "c \<in> set (df_columns df)" "list_all (\<lambda>(i, r). \<exists>b. p (r c) = Inr b) (df_rows df)"
  shows "\<exists>d. where_col p c df = Inr d"
proof -
  have "list_all (\<lambda>x. \<exists>b. p x = Inr b) (map (\<lambda>(i, r). r c) (df_rows df))"
    using assms(2) by (simp add: list_all_iff case_prod_beta)
  from series_cmp_total[OF this] assms(1) show ?thesis
    by (auto simp: where_col_def ebind_def getitem_def)
qed

lemma dropna_Inr:
  "dropna cols df = Inr d \<Longrightarrow>
     d = df\<lparr>df_rows := filter (\<lambda>(i, r). list_all (\<lambda>c. r c \<noteq> Null) cols) (df_rows df)\<rparr>
     \<and> set cols \<subseteq> set (df_columns df)"
  by (auto simp: dropna_def filter_empty_conv split: list.splits)

lemma dropna_total:
  assumes "set cols \<subseteq> set (df_columns df)"
  shows "\<exists>d. dropna cols df = Inr d"
proof -
  have "filter (\<lambda>c. c \<notin> set (df_columns df)) cols = []"
    using assms by (auto simp: filter_empty_conv)
  then show ?thesis by (simp add: dropna_def)
qed

lemma cell_gt_True: "cell_gt 0 c = Inr True \<longleftrightarrow> positive c"
  by (cases c) (auto simp: positive_def)

lemma cell_le_True: "cell_le k c = Inr True \<longleftrightarrow> at_most k c"
  by (cases c) (auto simp: at_most_def)

lemma positive_not_Null: "positive c \<Longrightarrow> c \<noteq> Null"
  by (auto simp: positive_def)

lemma clean_data_Inr:
  assumes "clean_data df = Inr d"
  shows "d = df\<lparr>df_rows := enumerate 0 (filter keeps (map snd (df_rows df)))\<rparr>"
    and "{''conso_5_usages_ep'', ''surface_habitable_logement'', ''conso_5_usages_par_m2_ep''}
           \<subseteq> set (df_columns df)"
proof -
  from assms obtain df1 df2 df3 df4 where
    1: "dropna [''conso_5_usages_ep'', ''surface_habitable_logement''] df = Inr df1" and
    2: "where_col (cell_gt 0) ''conso_5_usages_ep'' df1 = Inr df2" and
    3: "where_col (cell_gt 0) ''surface_habitable_logement'' df2 = Inr df3" and
    4: "where_col (cell_le 1000) ''conso_5_usages_par_m2_ep'' df3 = Inr df4" and
    5: "d = reset_index df4"
    by (auto simp: clean_data_def ebind_def split: sum.splits)
  note a = dropna_Inr[OF 1] and b = where_col_Inr[OF 2] and c = where_col_Inr[OF 3]
    and e = where_col_Inr[OF 4]
  have cols: "df_columns df1 = df_columns df" "df_columns df2 = df_columns df"
    "df_columns df3 = df_columns df"
    using a b c by simp_all
  show "{''conso_5_usages_ep'', ''surface_habitable_logement'', ''conso_5_usages_par_m2_ep''}
           \<subseteq> set (df_columns df)"
    using a e cols by simp
  have "df_rows df4 = filter (\<lambda>(i, r). keeps r) (df_rows df)"
    using a b c e
    by (auto simp: cell_gt_True cell_le_True keeps_def case_prod_unfold positive_not_Null
        intro!: filter_cong)
  then have "map snd (df_rows df4) = filter keeps (map snd (df_rows df))"
    by (simp add: filter_map comp_def case_prod_unfold)
  with 5 a b c e show "d = df\<lparr>df_rows := enumerate 0 (filter keeps (map snd (df_rows df)))\<rparr>"
    by (simp add: reset_index_def)
qed


lemma cell_gt_total:
  "(case x of Str s \<Rightarrow> False | _ \<Rightarrow> True) \<Longrightarrow> \<exists>b. cell_gt k x = Inr b"
  by (cases x) auto

lemma cell_le_total:
  "(case x of Str s \<Rightarrow> False | _ \<Rightarrow> True) \<Longrightarrow> \<exists>b. cell_le k x = Inr b"
  by (cases x) auto

lemma numeric_total:
  assumes "numeric_in c df"
  shows "list_all (\<lambda>(i, r). \<exists>b. cell_gt k (r c) = Inr b) (df_rows df)"
    and "list_all (\<lambda>(i, r). \<exists>b. cell_le k (r c) = Inr b) (df_rows df)"
proof -
  have *: "case snd ir c of Str s \<Rightarrow> False | _ \<Rightarrow> True" if "ir \<in> set (df_rows df)" for ir
    using assms that by (auto simp: numeric_in_def list_all_iff)
  show "list_all (\<lambda>(i, r). \<exists>b. cell_gt k (r c) = Inr b) (df_rows df)"
    unfolding list_all_iff case_prod_unfold using cell_gt_total[OF *] by blast
  show "list_all (\<lambda>(i, r). \<exists>b. cell_le k (r c) = Inr b) (df_rows df)"
    unfolding list_all_iff case_prod_unfold using cell_le_total[OF *] by blast
qed

lemma numeric_in_filter:
  "numeric_in c df \<Longrightarrow> numeric_in c (df\<lparr>df_rows := filter P (df_rows df)\<rparr>)"
  by (auto simp: numeric_in_def list_all_iff)

lemma clean_data_total:
  assumes "cleanable df"
  shows "\<exists>d. clean_data df = Inr d"
proof -
  from assms have n1: "numeric_in ''conso_5_usages_ep'' df"
    and n2: "numeric_in ''surface_habitable_logement'' df"
    and n3: "numeric_in ''conso_5_usages_par_m2_ep'' df"
    by (simp_all add: cleanable_def)
  have "set [''conso_5_usages_ep'', ''surface_habitable_logement''] \<subseteq> set (df_columns df)"
    using n1 n2 by (simp add: numeric_in_def)
  from dropna_total[OF this] obtain df1
    where 1: "dropna [''conso_5_usages_ep'', ''surface_habitable_logement''] df = Inr df1" ..
  from dropna_Inr[OF 1] obtain P1 where d1: "df1 = df\<lparr>df_rows := filter P1 (df_rows df)\<rparr>"
    by blast
  have m1: "numeric_in ''conso_5_usages_ep'' df1" "numeric_in ''surface_habitable_logement'' df1"
    "numeric_in ''conso_5_usages_par_m2_ep'' df1"
    unfolding d1 using n1 n2 n3 by (simp_all add: numeric_in_filter)
  from where_col_total[OF _ numeric_total(1)[OF m1(1)]] m1(1) obtain df2
    where 2: "where_col (cell_gt 0) ''conso_5_usages_ep'' df1 = Inr df2"
    by (auto simp: numeric_in_def)
  from where_col_Inr[OF 2] obtain P2 where d2: "df2 = df1\<lparr>df_rows := filter P2 (df_rows df1)\<rparr>"
    by blast
  have m2: "numeric_in ''surface_habitable_logement'' df2"
    "numeric_in ''conso_5_usages_par_m2_ep'' df2"
    unfolding d2 using m1(2,3) by (simp_all add: numeric_in_filter)
  from where_col_total[OF _ numeric_total(1)[OF m2(1)]] m2(1) obtain df3
    where 3: "where_col (cell_gt 0) ''surface_habitable_logement'' df2 = Inr df3"
    by (auto simp: numeric_in_def)
  from where_col_Inr[OF 3] obtain P3 where d3: "df3 = df2\<lparr>df_rows := filter P3 (df_rows df2)\<rparr>"
    by blast
  have m3: "numeric_in ''conso_5_usages_par_m2_ep'' df3"
    unfolding d3 using m2(2) by (rule numeric_in_filter)
  from where_col_total[OF _ numeric_total(2)[OF m3]] m3 obtain df4
    where 4: "where_col (cell_le 1000) ''conso_5_usages_par_m2_ep'' df3 = Inr df4"
    by (auto simp: numeric_in_def)
  from 1 2 3 4 show ?thesis
    by (simp add: clean_data_def ebind_def)
qed

lemma keeps_numeric:
  "keeps r \<Longrightarrow> (case r ''conso_5_usages_ep'' of Str s \<Rightarrow> False | _ \<Rightarrow> True)
     \<and> (case r ''surface_habitable_logement'' of Str s \<Rightarrow> False | _ \<Rightarrow> True)
     \<and> (case r ''conso_5_usages_par_m2_ep'' of Str s \<Rightarrow> False | _ \<Rightarrow> True)"
  by (auto simp: keeps_def positive_def at_most_def split: cell.splits)

lemma map_snd_enumerate: "map snd (enumerate n xs) = xs"
  by (simp add: enumerate_eq_zip)

lemma clean_data_fixpoint:
  assumes "clean_data df = Inr d"
  shows "clean_data d = Inr d"
proof -
  note d = clean_data_Inr[OF assms]
  have rows: "map snd (df_rows d) = filter keeps (map snd (df_rows df))"
    using d(1) by (simp add: map_snd_enumerate)
  have all: "keeps (snd ir)" if "ir \<in> set (df_rows d)" for ir
  proof -
    from that have "snd ir \<in> set (map snd (df_rows d))" by simp
    then show ?thesis unfolding rows by simp
  qed
  have cols: "df_columns d = df_columns df" using d(1) by simp
  have "cleanable d"
    using all d(2) keeps_numeric
    by (auto simp: cleanable_def numeric_in_def list_all_iff cols)
  from clean_data_total[OF this] obtain d' where d': "clean_data d = Inr d'" ..
  have "filter keeps (map snd (df_rows d)) = map snd (df_rows d)"
    using rows by simp
  with clean_data_Inr(1)[OF d'] d(1) have "d' = d"
    by simp
  with d' show ?thesis by simp
qed

lemmas clean_eval =
  clean_data_def ebind_def dropna_def where_col_def getitem_def select_mask_def reset_index_def
  frame3_def row3_def enumerate_eq_zip

subsection \<open>C2: the rows the cleaner returns\<close>

text \<open>
  C2, as stated, has the third filter test the per-unit-area quantity for being positive.
  \<open>clean_data\<close> tests \<open>surface_habitable_logement > 0\<close> there. On the frame below the code
  keeps the first row (ratio \<open>-1\<close>, which the stated predicates reject) and drops the second
  (surface \<open>-10\<close>, which the stated predicates accept).
\<close>

theorem clean_data_spec_counterexample:
  "clean_data (frame3 [row3 (Num 5) (Num 10) (Num (- 1)), row3 (Num 5) (Num (- 10)) (Num 50)])
     = Inr (frame3 [row3 (Num 5) (Num 10) (Num (- 1))])
   \<and> filter keeps_spec [row3 (Num 5) (Num 10) (Num (- 1)), row3 (Num 5) (Num (- 10)) (Num 50)]
     = [row3 (Num 5) (Num (- 10)) (Num 50)]"
  by (simp add: clean_eval keeps_spec_def positive_def at_most_def upt_rec)

text \<open>
  C2 (amended): for every frame that has the three columns \<open>conso_5_usages_ep\<close>,
  \<open>surface_habitable_logement\<close> and \<open>conso_5_usages_par_m2_ep\<close> with numeric or null cells,
  \<open>clean_data\<close> succeeds and returns exactly the rows with \<open>conso_5_usages_ep > 0\<close>,
  \<open>surface_habitable_logement > 0\<close> and \<open>conso_5_usages_par_m2_ep \<le> 1000\<close> (each of the three
  non-null), in their original relative order, with indices renumbered from zero.
\<close>

theorem clean_data_rows:
  assumes "cleanable df"
  shows "clean_data df = Inr (df\<lparr>df_rows := enumerate 0 (filter keeps (map snd (df_rows df)))\<rparr>)"
proof -
  from clean_data_total[OF assms] obtain d where d: "clean_data df = Inr d" ..
  from clean_data_Inr(1)[OF d] d show ?thesis by simp
qed

theorem clean_data_rows_witness:
  "cleanable (frame3 [row3 (Num 5) (Num 10) (Num (- 1)), row3 Null (Num 3) (Num 50), row3 (Num 7) (Num 2) (Num 1001)])
   \<and> clean_data (frame3 [row3 (Num 5) (Num 10) (Num (- 1)), row3 Null (Num 3) (Num 50), row3 (Num 7) (Num 2) (Num 1001)])
     = Inr (frame3 [row3 (Num 5) (Num 10) (Num (- 1))])"
proof -
  have c: "cleanable (frame3 [row3 (Num 5) (Num 10) (Num (- 1)), row3 Null (Num 3) (Num 50), row3 (Num 7) (Num 2) (Num 1001)])"
    by (simp add: cleanable_def numeric_in_def frame3_def row3_def enumerate_eq_zip upt_rec)
  from clean_data_rows[OF c] c show ?thesis
    by (simp add: frame3_def row3_def keeps_def positive_def at_most_def enumerate_eq_zip upt_rec)
qed

subsection \<open>C7: cleaning twice\<close>

text \<open>
  C7: the Record Cleaner is idempotent. For every frame, running \<open>clean_data\<close> on its own
  result gives what one run gives: the same frame (rows, order and indices) when the first
  run returns, and the first run's error otherwise.
\<close>

theorem clean_data_idempotent: "ebind (clean_data df) clean_data = clean_data df"
proof (cases "clean_data df")
  case (Inl e)
  then show ?thesis by (simp add: ebind_def)
next
  case (Inr d)
  from clean_data_fixpoint[OF Inr] Inr show ?thesis by (simp add: ebind_def)
qed

theorem clean_data_idempotent_witness:
  "ebind (clean_data (frame3 [row3 (Num 5) (Num (- 10)) (Num 50), row3 (Num 120) (Num 60) (Num 2)])) clean_data
     = Inr (frame3 [row3 (Num 120) (Num 60) (Num 2)])"
proof -
  have "clean_data (frame3 [row3 (Num 5) (Num (- 10)) (Num 50), row3 (Num 120) (Num 60) (Num 2)])
     = Inr (frame3 [row3 (Num 120) (Num 60) (Num 2)])"
    by (simp add: clean_eval upt_rec)
  with clean_data_idempotent[of "frame3 [row3 (Num 5) (Num (- 10)) (Num 50), row3 (Num 120) (Num 60) (Num 2)]"]
  show ?thesis by simp
qed

subsection \<open>C9: rows without a per-unit-area quantity\<close>

text \<open>
  C9: whenever \<open>clean_data\<close> returns, no row whose \<open>conso_5_usages_par_m2_ep\<close> is null is among
  the returned rows, whatever its other cells are: the comparison \<open>\<le> 1000\<close> is false on null.
\<close>

theorem clean_data_drops_null_ratio:
  assumes "clean_data df = Inr d" "r ''conso_5_usages_par_m2_ep'' = Null"
  shows "r \<notin> snd ` set (df_rows d)"
proof
  assume "r \<in> snd ` set (df_rows d)"
  then have "r \<in> set (map snd (df_rows d))" by simp
  then have "keeps r"
    using clean_data_Inr(1)[OF assms(1)] by (simp add: map_snd_enumerate)
  with assms(2) show False by (simp add: keeps_def at_most_def)
qed

theorem clean_data_drops_null_ratio_witness:
  "clean_data (frame3 [row3 (Num 5) (Num 10) Null, row3 (Num 120) (Num 60) (Num 2)])
     = Inr (frame3 [row3 (Num 120) (Num 60) (Num 2)])
   \<and> row3 (Num 5) (Num 10) Null ''conso_5_usages_par_m2_ep'' = Null
   \<and> positive (row3 (Num 5) (Num 10) Null ''conso_5_usages_ep'')
   \<and> positive (row3 (Num 5) (Num 10) Null ''surface_habitable_logement'')
   \<and> row3 (Num 5) (Num 10) Null \<notin> snd ` set (df_rows (frame3 [row3 (Num 120) (Num 60) (Num 2)]))"
proof -
  have a: "clean_data (frame3 [row3 (Num 5) (Num 10) Null, row3 (Num 120) (Num 60) (Num 2)])
     = Inr (frame3 [row3 (Num 120) (Num 60) (Num 2)])"
    by (simp add: clean_eval upt_rec)
  have b: "row3 (Num 5) (Num 10) Null ''conso_5_usages_par_m2_ep'' = Null"
    by (simp add: row3_def)
  have c: "positive (row3 (Num 5) (Num 10) Null ''conso_5_usages_ep'')"
    "positive (row3 (Num 5) (Num 10) Null ''surface_habitable_logement'')"
    by (simp_all add: row3_def positive_def)
  from clean_data_drops_null_ratio[of _ _ "row3 (Num 5) (Num 10) Null", OF a b] a b c
  show ?thesis by blast
qed

section \<open>Properties of the Page Fetcher and the Pagination Driver\<close>

subsection \<open>Runs against an observed service\<close>

lemma fetch_page_recording:
  "fetch_page (recording svc) (s, lg) after sz =
     (case svc s (params after sz) of
        (Inl e, s1) \<Rightarrow> (Inl e, (s1, lg @ [(params after sz, Inl e)]))
      | (Inr data, s1) \<Rightarrow>
          (Inr (results data, next_after (next_url data)), (s1, lg @ [(params after sz, Inr data)])))"
  by (simp add: fetch_page_def recording_def split: prod.splits sum.splits)

lemma params_fields:
  "req_size (params after (min r PAGE_SIZE)) = min r PAGE_SIZE"
  "after = None \<or> truthy after \<Longrightarrow> req_after (params after sz) = after"
  by (auto simp: params_def)

lemma fetch_loop_recording:
  assumes "fetch_loop (recording svc) n all_rows after (s, log0) = (out, (s', log'))"
    and "after = None \<or> truthy after"
  shows "\<exists>new. log' = log0 @ new \<and> chained n (length all_rows) after new
           \<and> list_all (\<lambda>x. \<not> isl (snd x)) (butlast new)
           \<and> (case out of Inl e \<Rightarrow> new \<noteq> [] \<and> snd (last new) = Inl e
                | Inr rows \<Rightarrow> list_all (\<lambda>x. \<not> isl (snd x)) new)"
  using assms
proof (induction "nat (n - int (length all_rows))" arbitrary: all_rows after s log0 rule: less_induct)
  case less
  show ?case
  proof (cases "int (length all_rows) < n")
    case False
    with less.prems(1) have "log' = log0" "out = Inr all_rows"
      by (simp_all add: fetch_loop.simps)
    then show ?thesis by simp
  next
    case True
    let ?sz = "min (n - int (length all_rows)) PAGE_SIZE"
    let ?req = "params after ?sz"
    have req: "req_after ?req = after" "req_size ?req = ?sz"
      using less.prems(2) by (simp_all add: params_fields)
    obtain reply s1 where svc: "svc s ?req = (reply, s1)" by (cases "svc s ?req")
    show ?thesis
    proof (cases reply)
      case (Inl e)
      with svc True less.prems(1) have "out = Inl e" "log' = log0 @ [(?req, Inl e)]"
        by (simp_all add: fetch_loop.simps[of _ n all_rows] fetch_page_recording Let_def)
      with req show ?thesis by simp
    next
      case (Inr data)
      let ?rows = "results data" and ?next = "next_after (next_url data)"
      from Inr svc have page: "fetch_page (recording svc) (s, log0) after ?sz
          = (Inr (?rows, ?next), (s1, log0 @ [(?req, Inr data)]))"
        by (simp add: fetch_page_recording)
      show ?thesis
      proof (cases "?rows = [] \<or> \<not> truthy ?next")
        case True
        with page \<open>int (length all_rows) < n\<close> less.prems(1)
        have "log' = log0 @ [(?req, Inr data)]" "\<exists>rows. out = Inr rows"
          by (auto simp: fetch_loop.simps[of _ n all_rows] Let_def split: if_splits)
        with req show ?thesis by auto
      next
        case False
        with page \<open>int (length all_rows) < n\<close> less.prems(1)
        have rec: "fetch_loop (recording svc) n (all_rows @ ?rows) ?next (s1, log0 @ [(?req, Inr data)])
            = (out, (s', log'))"
          by (simp add: fetch_loop.simps[of _ n all_rows] Let_def)
        from False \<open>int (length all_rows) < n\<close>
        have dec: "nat (n - int (length (all_rows @ ?rows))) < nat (n - int (length all_rows))"
          by (cases "?rows") auto
        from False have t: "?next = None \<or> truthy ?next" by simp
        from less.hyps[OF dec rec t] obtain new where
          new: "log' = (log0 @ [(?req, Inr data)]) @ new"
            "chained n (length (all_rows @ ?rows)) ?next new"
            "list_all (\<lambda>x. \<not> isl (snd x)) (butlast new)"
            "case out of Inl e \<Rightarrow> new \<noteq> [] \<and> snd (last new) = Inl e
                | Inr rows \<Rightarrow> list_all (\<lambda>x. \<not> isl (snd x)) new"
          by blast
        from False have nn: "?next \<noteq> None" by (auto simp: truthy_def split: option.splits)
        have 1: "log' = log0 @ ((?req, Inr data) # new)" using new(1) by simp
        have 2: "chained n (length all_rows) after ((?req, Inr data) # new)"
          using new(2) req nn by simp
        have 3: "list_all (\<lambda>x. \<not> isl (snd x)) (butlast ((?req, Inr data) # new))"
          using new(3) by simp
        have 4: "case out of Inl e \<Rightarrow> (?req, Inr data) # new \<noteq> [] \<and> snd (last ((?req, Inr data) # new)) = Inl e
                | Inr rows \<Rightarrow> list_all (\<lambda>x. \<not> isl (snd x)) ((?req, Inr data) # new)"
          using new(4) by (auto split: sum.splits)
        from 1 2 3 4 show ?thesis by blast
      qed
    qed
  qed
qed


lemma fetch_dpe_data_log:
  assumes "fetch_dpe_data (recording svc) (s, []) n = (out, (s', lg))"
  shows "chained n 0 None lg"
    and "list_all (\<lambda>x. \<not> isl (snd x)) (butlast lg)"
    and "case out of Inl e \<Rightarrow> lg \<noteq> [] \<and> snd (last lg) = Inl e
          | Inr df \<Rightarrow> list_all (\<lambda>x. \<not> isl (snd x)) lg"
proof -
  obtain r s1 where loop1: "fetch_loop (recording svc) n [] None (s, []) = (r, s1)"
    by (cases "fetch_loop (recording svc) n [] None (s, [])")
  with assms have s1: "s1 = (s', lg)"
    and out: "out = map_sum id (\<lambda>all_rows. DataFrame all_rows (filter (has_column all_rows) SELECTED_COLUMNS)) r"
    by (cases r; simp add: fetch_dpe_data_def Let_def)+
  from loop1 s1 have loop: "fetch_loop (recording svc) n [] None (s, []) = (r, (s', lg))" by simp
  from fetch_loop_recording[OF loop] obtain new where
    new: "lg = [] @ new" "chained n (length ([]::json_row list)) None new"
      "list_all (\<lambda>x. \<not> isl (snd x)) (butlast new)"
      "case r of Inl e \<Rightarrow> new \<noteq> [] \<and> snd (last new) = Inl e
         | Inr rows \<Rightarrow> list_all (\<lambda>x. \<not> isl (snd x)) new"
    by blast
  from new show "chained n 0 None lg" by simp
  from new show "list_all (\<lambda>x. \<not> isl (snd x)) (butlast lg)" by simp
  from new(1,4) out show "case out of Inl e \<Rightarrow> lg \<noteq> [] \<and> snd (last lg) = Inl e
          | Inr df \<Rightarrow> list_all (\<lambda>x. \<not> isl (snd x)) lg"
    by (cases r) simp_all
qed

subsection \<open>Runs against the simulated service\<close>






lemmas fetch_eval =
  fetch_dpe_data_def fetch_loop.simps fetch_page_def recording_def sim_service_def params_def
  truthy_def next_after_def numero_dpe_def ex_record_def less_char_def PAGE_SIZE_def Let_def

subsection \<open>C3: what the driver returns\<close>



text \<open>
  The condition on the keys is needed. A record with the empty key gives the empty cursor,
  which \<open>parse_qs\<close> drops, so that the run ends after the page that record closes.
\<close>

lemma empty_key_ends_run:
  "fst (fetch_loop (sim_service [ex_record [], ex_record ''k2''] 1) 2 [] None ())
     = Inr [ex_record []]"
  by (subst fetch_loop.simps) (simp add: fetch_page_def sim_service_def params_def truthy_def
      next_after_def numero_dpe_def ex_record_def PAGE_SIZE_def Let_def)

subsection \<open>C6: the cursor and the size of every request\<close>

text \<open>
  C6: in every run of the driver, against any service, the first request carries no
  cursor, every later request carries the cursor the page before it returned, and every
  request asks for \<open>min remaining PAGE_SIZE\<close> records, \<open>remaining\<close> being the target count less
  the records accumulated so far. This is \<open>chained\<close> of the run's log, from no record and no
  cursor.
\<close>

theorem cursor_continuation:
  "fetch_dpe_data (recording svc) (s, []) n = (out, (s', lg)) \<Longrightarrow> chained n 0 None lg"
  by (rule fetch_dpe_data_log(1))

theorem cursor_continuation_witness:
  "chained 3 0 None
     (snd (snd (fetch_dpe_data (recording (sim_service [ex_record ''k1'', ex_record ''k2'', ex_record ''k3''] 2)) ((), []) 3)))
   \<and> map (\<lambda>x. (req_after (fst x), req_size (fst x)))
       (snd (snd (fetch_dpe_data (recording (sim_service [ex_record ''k1'', ex_record ''k2'', ex_record ''k3''] 2)) ((), []) 3)))
     = [(None, 3), (Some ''k2'', 1)]"
proof -
  let ?run = "fetch_dpe_data (recording (sim_service [ex_record ''k1'', ex_record ''k2'', ex_record ''k3''] 2)) ((), []) 3"
  have "?run = (fst ?run, ((), snd (snd ?run)))" by (simp add: prod_eq_iff)
  then have "chained 3 0 None (snd (snd ?run))" by (rule cursor_continuation)
  moreover have "map (\<lambda>x. (req_after (fst x), req_size (fst x))) (snd (snd ?run))
      = [(None, 3), (Some ''k2'', 1)]"
    by (simp add: fetch_eval)
  ultimately show ?thesis by simp
qed

subsection \<open>C8: a failed request\<close>

text \<open>
  C8: if any request of a run fails, the run returns that failure and no rows, and the
  failed request is the last exchange of the run: it is not sent again, and no request
  follows it. Every exchange before it was answered.
\<close>

theorem transport_failure_aborts:
  assumes "fetch_dpe_data (recording svc) (s, []) n = (out, (s', lg))"
    and "(req, Inl e) \<in> set lg"
  shows "out = Inl e \<and> last lg = (req, Inl e) \<and> list_all (\<lambda>x. \<not> isl (snd x)) (butlast lg)"
proof -
  note l = fetch_dpe_data_log[OF assms(1)]
  from assms(2) have ne: "lg \<noteq> []" by auto
  have notin: "(req, Inl e) \<notin> set (butlast lg)"
    using l(2) by (auto simp: list_all_iff)
  from ne have "lg = butlast lg @ [last lg]" by simp
  then have "set lg = set (butlast lg) \<union> {last lg}"
    by (metis Un_insert_right list.simps(15) set_append sup_bot.right_neutral list.set(1))
  with assms(2) notin have lst: "last lg = (req, Inl e)" by auto
  have "out = Inl e"
  proof (cases out)
    case (Inl e')
    with l(3) lst show ?thesis by simp
  next
    case (Inr df)
    with l(3) assms(2) show ?thesis by (auto simp: list_all_iff)
  qed
  with lst l(2) show ?thesis by simp
qed

theorem transport_failure_aborts_witness:
  "fetch_dpe_data (recording flaky) (0, []) 5
     = (Inl (HTTPError 503), (2,
         [(params None 5, Inr \<lparr>results = [ex_record ''k1''], total = None, next_url = Some [(''after'', ''k1'')]\<rparr>),
          (params (Some ''k1'') 4, Inl (HTTPError 503))]))
   \<and> last [(params None 5, Inr \<lparr>results = [ex_record ''k1''], total = None, next_url = Some [(''after'', ''k1'')]\<rparr>),
          (params (Some ''k1'') 4, Inl (HTTPError 503))]
     = (params (Some ''k1'') 4, Inl (HTTPError 503))"
proof -
  let ?lg = "[(params None 5, Inr \<lparr>results = [ex_record ''k1''], total = None, next_url = Some [(''after'', ''k1'')]\<rparr>),
          (params (Some ''k1'') 4, Inl (HTTPError 503))]"
  have run: "fetch_dpe_data (recording flaky) (0, []) 5 = (Inl (HTTPError 503), (2, ?lg))"
    by (simp add: fetch_dpe_data_def fetch_loop.simps fetch_page_def recording_def flaky_def
        truthy_def next_after_def PAGE_SIZE_def Let_def)
  have mem: "(params (Some ''k1'') 4, Inl (HTTPError 503)) \<in> set ?lg" by simp
  from transport_failure_aborts[OF run mem] run show ?thesis by simp
qed

section \<open>Properties of the Leakage Guard and the Partitioner\<close>

subsection \<open>Evaluating and characterising the steps\<close>

lemma floor_rat_numeral: "\<lfloor>numeral a / numeral b :: rat\<rfloor> = numeral a div numeral b"
  using floor_divide_of_int_eq[of "numeral a" "numeral b", where ?'a = rat] by simp

lemma floor_rat_neg_numeral: "\<lfloor>- (numeral a / numeral b) :: rat\<rfloor> = - numeral a div numeral b"
  using floor_divide_of_int_eq[of "- numeral a" "numeral b", where ?'a = rat] by simp

lemma ceiling_rat_numeral: "\<lceil>numeral a / numeral b :: rat\<rceil> = - (- numeral a div numeral b)"
  unfolding ceiling_def by (simp add: floor_rat_neg_numeral)

lemma ceiling_rat_neg_numeral: "\<lceil>- (numeral a / numeral b) :: rat\<rceil> = - (numeral a div numeral b)"
  unfolding ceiling_def by (simp add: floor_rat_numeral)

lemmas rat_eval = floor_rat_numeral floor_rat_neg_numeral ceiling_rat_numeral ceiling_rat_neg_numeral




lemma ceiling_rat_neg_one: "\<lceil>- 1 :: rat\<rceil> = - 1"
  using ceiling_of_int[of "- 1", where ?'a = rat] by simp








lemma min_share_least:
  assumes "min_share col = Some p"
  shows "p \<in> set (value_counts_normalize col) \<and> (\<forall>q \<in> set (value_counts_normalize col). p \<le> q)"
proof -
  from assms obtain x xs where v: "value_counts_normalize col = x # xs" and p: "p = fold min xs x"
    by (auto simp: min_share_def split: list.splits)
  have "fold min xs x = Min (set (x # xs))" by (rule Min.set_eq_fold[symmetric])
  with p v show ?thesis by (metis List.finite_set Min_in Min_le list.distinct(1) set_empty)
qed

lemmas strat_eval =
  choose_strat_def region_keys_def region_key_def getitem_def ebind_def fillna_def
  astype_int_def str_int_def str_nat.simps value_counts_normalize_def min_share_def
  py_round_def Let_def TARGET_def region_frame_def region_row_def no_text_def
  enumerate_eq_zip upt_rec rat_eval ceiling_rat_neg_one

subsection \<open>C1: the minimal size and the key chosen\<close>




subsection \<open>C5: the feature columns\<close>

text \<open>
  C5: for every list of input columns, the Feature Set is exactly the input columns that
  are in none of \<open>META_COLS\<close>, \<open>LEAKY_COLS\<close> and \<open>{TARGET}\<close>, in their input order. It holds none
  of the listed columns and every other input column; listed columns missing from the
  input raise nothing, and selecting the feature columns from the frame succeeds.
\<close>

theorem leakage_guard:
  "set (feature_cols cols) = set cols - (set META_COLS \<union> set LEAKY_COLS \<union> {TARGET})
   \<and> feature_cols cols = filter (\<lambda>c. c \<notin> set META_COLS \<and> c \<notin> set LEAKY_COLS \<and> c \<noteq> TARGET) cols
   \<and> (\<exists>X. getitem_cols df (feature_cols (df_columns df)) = Inr X
          \<and> df_columns X = feature_cols (df_columns df)
          \<and> map fst (df_rows X) = map fst (df_rows df))"
proof -
  have 1: "feature_cols cols = filter (\<lambda>c. c \<notin> set META_COLS \<and> c \<notin> set LEAKY_COLS \<and> c \<noteq> TARGET) cols"
    for cols
    unfolding feature_cols_def cols_to_drop_def by (rule filter_cong) auto
  then have 2: "set (feature_cols cols) = set cols - (set META_COLS \<union> set LEAKY_COLS \<union> {TARGET})"
    by auto
  have "filter (\<lambda>c. c \<notin> set (df_columns df)) (feature_cols (df_columns df)) = []"
    by (simp add: feature_cols_def filter_empty_conv)
  then have 3: "\<exists>X. getitem_cols df (feature_cols (df_columns df)) = Inr X
          \<and> df_columns X = feature_cols (df_columns df)
          \<and> map fst (df_rows X) = map fst (df_rows df)"
    by (simp add: getitem_cols_def comp_def case_prod_unfold)
  from 1 2 3 show ?thesis by blast
qed

theorem leakage_guard_witness:
  "feature_cols [''numero_dpe'', ''etiquette_dpe'', ''surface_habitable_logement'',
       ''conso_5_usages_ep'', ''zone_climatique'', ''etiquette_ges'']
     = [''surface_habitable_logement'', ''zone_climatique'']"
  using leakage_guard[of "[''numero_dpe'', ''etiquette_dpe'', ''surface_habitable_logement'',
       ''conso_5_usages_ep'', ''zone_climatique'', ''etiquette_ges'']"]
  by (simp add: META_COLS_def LEAKY_COLS_def TARGET_def)

subsection \<open>C10: the region key\<close>



subsection \<open>C4: the three parts\<close>

lemma ebind_Inr:
  assumes "ebind m f = Inr y"
  obtains x where "m = Inr x" "f x = Inr y"
  using assms by (cases m) (simp_all add: ebind_def)

lemma getitem_cols_index: "getitem_cols df cols = Inr X \<Longrightarrow> df_index X = df_index df"
  by (auto simp: getitem_cols_def df_index_def case_prod_unfold comp_def split: list.splits)

lemma iloc_index:
  assumes "iloc df ps = Inr d"
  shows "df_index d = map ((!) (df_index df)) ps" and "length (df_rows d) = length ps"
proof -
  from assms have ok: "\<forall>p \<in> set ps. p < length (df_rows df)"
    and d: "d = df\<lparr>df_rows := map (\<lambda>p. df_rows df ! p) ps\<rparr>"
    by (auto simp: iloc_def list_all_iff split: if_splits)
  from d show "length (df_rows d) = length ps" by simp
  from d ok show "df_index d = map ((!) (df_index df)) ps"
    by (simp add: df_index_def)
qed

lemma picks_partition:
  assumes "distinct xs" "distinct (ps @ qs)" "set (ps @ qs) = {..<length xs}"
  shows "distinct (map ((!) xs) ps @ map ((!) xs) qs)"
    and "set (map ((!) xs) ps) \<union> set (map ((!) xs) qs) = set xs"
proof -
  from assms(1) have inj: "inj_on ((!) xs) {..<length xs}"
    by (auto simp: inj_on_def nth_eq_iff_index_eq)
  with assms(2,3) have "distinct (map ((!) xs) (ps @ qs))"
    by (simp only: distinct_map)
  then show "distinct (map ((!) xs) ps @ map ((!) xs) qs)" by simp
  have "set (map ((!) xs) (ps @ qs)) = (!) xs ` {..<length xs}"
    using assms(3) by (simp only: set_map)
  also have "\<dots> = set xs"
    by (auto simp: set_conv_nth)
  finally show "set (map ((!) xs) ps) \<union> set (map ((!) xs) qs) = set xs" by simp
qed

lemma main_indexes:
  assumes "main py split seed df = Inr out"
  obtains train rem test priv key1 key2 where
    "split seed (3 / 10) key1 (length (df_rows df)) = Inr (train, rem)"
    "split seed (1 / 2) key2 (length rem) = Inr (test, priv)"
    "df_index (X_train out) = map ((!) (df_index df)) train"
    "df_index (X_test out) = map ((!) (map ((!) (df_index df)) rem)) test"
    "df_index (X_priv out) = map ((!) (map ((!) (df_index df)) rem)) priv"
    "df_index (y_train out) = df_index (X_train out)"
    "df_index (y_test out) = df_index (X_test out)"
    "df_index (y_priv out) = df_index (X_priv out)"
proof -
  from assms[unfolded main_def] obtain X where X: "getitem_cols df (feature_cols (df_columns df)) = Inr X"
    and r1: "ebind (getitem_cols df [TARGET]) (\<lambda>y.
     ebind (choose_strat py df) (\<lambda>ch.
     ebind (split seed (3 / 10) (strat ch) (length (df_rows X))) (\<lambda>(train, rem).
     ebind (iloc X train) (\<lambda>X_train'.
     ebind (iloc X rem) (\<lambda>X_rem.
     ebind (iloc y train) (\<lambda>y_train'.
     ebind (iloc y rem) (\<lambda>y_rem.
     ebind (loc (map fst (df_rows df)) (strat ch) (map fst (df_rows X_rem))) (\<lambda>strat_rem.
     ebind (split seed (1 / 2) strat_rem (length (df_rows X_rem))) (\<lambda>(test, priv).
     ebind (iloc X_rem test) (\<lambda>X_test'.
     ebind (iloc X_rem priv) (\<lambda>X_priv'.
     ebind (iloc y_rem test) (\<lambda>y_test'.
     ebind (iloc y_rem priv) (\<lambda>y_priv'.
       Inr \<lparr>X_train = X_train', y_train = y_train', X_test = X_test', y_test = y_test',
            X_priv = X_priv', y_priv = y_priv', chosen = ch\<rparr>))))))))))))) = Inr out"
    by (rule ebind_Inr)
  from r1 obtain y where y: "getitem_cols df [TARGET] = Inr y"
    and r2: "ebind (choose_strat py df) (\<lambda>ch.
     ebind (split seed (3 / 10) (strat ch) (length (df_rows X))) (\<lambda>(train, rem).
     ebind (iloc X train) (\<lambda>X_train'.
     ebind (iloc X rem) (\<lambda>X_rem.
     ebind (iloc y train) (\<lambda>y_train'.
     ebind (iloc y rem) (\<lambda>y_rem.
     ebind (loc (map fst (df_rows df)) (strat ch) (map fst (df_rows X_rem))) (\<lambda>strat_rem.
     ebind (split seed (1 / 2) strat_rem (length (df_rows X_rem))) (\<lambda>(test, priv).
     ebind (iloc X_rem test) (\<lambda>X_test'.
     ebind (iloc X_rem priv) (\<lambda>X_priv'.
     ebind (iloc y_rem test) (\<lambda>y_test'.
     ebind (iloc y_rem priv) (\<lambda>y_priv'.
       Inr \<lparr>X_train = X_train', y_train = y_train', X_test = X_test', y_test = y_test',
            X_priv = X_priv', y_priv = y_priv', chosen = ch\<rparr>)))))))))))) = Inr out"
    by (rule ebind_Inr)
  from r2 obtain ch where
    r3: "ebind (split seed (3 / 10) (strat ch) (length (df_rows X))) (\<lambda>(train, rem).
     ebind (iloc X train) (\<lambda>X_train'.
     ebind (iloc X rem) (\<lambda>X_rem.
     ebind (iloc y train) (\<lambda>y_train'.
     ebind (iloc y rem) (\<lambda>y_rem.
     ebind (loc (map fst (df_rows df)) (strat ch) (map fst (df_rows X_rem))) (\<lambda>strat_rem.
     ebind (split seed (1 / 2) strat_rem (length (df_rows X_rem))) (\<lambda>(test, priv).
     ebind (iloc X_rem test) (\<lambda>X_test'.
     ebind (iloc X_rem priv) (\<lambda>X_priv'.
     ebind (iloc y_rem test) (\<lambda>y_test'.
     ebind (iloc y_rem priv) (\<lambda>y_priv'.
       Inr \<lparr>X_train = X_train', y_train = y_train', X_test = X_test', y_test = y_test',
            X_priv = X_priv', y_priv = y_priv', chosen = ch\<rparr>))))))))))) = Inr out"
    by (rule ebind_Inr)
  from r3 obtain tr where s1': "split seed (3 / 10) (strat ch) (length (df_rows X)) = Inr tr"
    and r4': "(case tr of (train, rem) \<Rightarrow>
     ebind (iloc X train) (\<lambda>X_train'.
     ebind (iloc X rem) (\<lambda>X_rem.
     ebind (iloc y train) (\<lambda>y_train'.
     ebind (iloc y rem) (\<lambda>y_rem.
     ebind (loc (map fst (df_rows df)) (strat ch) (map fst (df_rows X_rem))) (\<lambda>strat_rem.
     ebind (split seed (1 / 2) strat_rem (length (df_rows X_rem))) (\<lambda>(test, priv).
     ebind (iloc X_rem test) (\<lambda>X_test'.
     ebind (iloc X_rem priv) (\<lambda>X_priv'.
     ebind (iloc y_rem test) (\<lambda>y_test'.
     ebind (iloc y_rem priv) (\<lambda>y_priv'.
       Inr \<lparr>X_train = X_train', y_train = y_train', X_test = X_test', y_test = y_test',
            X_priv = X_priv', y_priv = y_priv', chosen = ch\<rparr>))))))))))) = Inr out"
    by (rule ebind_Inr)
  obtain train rem where tr: "tr = (train, rem)" by (cases tr)
  note s1 = s1'[unfolded tr] and r4 = r4'[unfolded tr prod.case]
  from r4 obtain Xtr where Xtr: "iloc X train = Inr Xtr"
    and r5: "ebind (iloc X rem) (\<lambda>X_rem.
     ebind (iloc y train) (\<lambda>y_train'.
     ebind (iloc y rem) (\<lambda>y_rem.
     ebind (loc (map fst (df_rows df)) (strat ch) (map fst (df_rows X_rem))) (\<lambda>strat_rem.
     ebind (split seed (1 / 2) strat_rem (length (df_rows X_rem))) (\<lambda>(test, priv).
     ebind (iloc X_rem test) (\<lambda>X_test'.
     ebind (iloc X_rem priv) (\<lambda>X_priv'.
     ebind (iloc y_rem test) (\<lambda>y_test'.
     ebind (iloc y_rem priv) (\<lambda>y_priv'.
       Inr \<lparr>X_train = Xtr, y_train = y_train', X_test = X_test', y_test = y_test',
            X_priv = X_priv', y_priv = y_priv', chosen = ch\<rparr>))))))))) = Inr out"
    by (rule ebind_Inr)
  from r5 obtain Xrem where Xrem: "iloc X rem = Inr Xrem"
    and r6: "ebind (iloc y train) (\<lambda>y_train'.
     ebind (iloc y rem) (\<lambda>y_rem.
     ebind (loc (map fst (df_rows df)) (strat ch) (map fst (df_rows Xrem))) (\<lambda>strat_rem.
     ebind (split seed (1 / 2) strat_rem (length (df_rows Xrem))) (\<lambda>(test, priv).
     ebind (iloc Xrem test) (\<lambda>X_test'.
     ebind (iloc Xrem priv) (\<lambda>X_priv'.
     ebind (iloc y_rem test) (\<lambda>y_test'.
     ebind (iloc y_rem priv) (\<lambda>y_priv'.
       Inr \<lparr>X_train = Xtr, y_train = y_train', X_test = X_test', y_test = y_test',
            X_priv = X_priv', y_priv = y_priv', chosen = ch\<rparr>)))))))) = Inr out"
    by (rule ebind_Inr)
  from r6 obtain ytr where ytr: "iloc y train = Inr ytr"
    and r7: "ebind (iloc y rem) (\<lambda>y_rem.
     ebind (loc (map fst (df_rows df)) (strat ch) (map fst (df_rows Xrem))) (\<lambda>strat_rem.
     ebind (split seed (1 / 2) strat_rem (length (df_rows Xrem))) (\<lambda>(test, priv).
     ebind (iloc Xrem test) (\<lambda>X_test'.
     ebind (iloc Xrem priv) (\<lambda>X_priv'.
     ebind (iloc y_rem test) (\<lambda>y_test'.
     ebind (iloc y_rem priv) (\<lambda>y_priv'.
       Inr \<lparr>X_train = Xtr, y_train = ytr, X_test = X_test', y_test = y_test',
            X_priv = X_priv', y_priv = y_priv', chosen = ch\<rparr>))))))) = Inr out"
    by (rule ebind_Inr)
  from r7 obtain yrem where yrem: "iloc y rem = Inr yrem"
    and r8: "ebind (loc (map fst (df_rows df)) (strat ch) (map fst (df_rows Xrem))) (\<lambda>strat_rem.
     ebind (split seed (1 / 2) strat_rem (length (df_rows Xrem))) (\<lambda>(test, priv).
     ebind (iloc Xrem test) (\<lambda>X_test'.
     ebind (iloc Xrem priv) (\<lambda>X_priv'.
     ebind (iloc yrem test) (\<lambda>y_test'.
     ebind (iloc yrem priv) (\<lambda>y_priv'.
       Inr \<lparr>X_train = Xtr, y_train = ytr, X_test = X_test', y_test = y_test',
            X_priv = X_priv', y_priv = y_priv', chosen = ch\<rparr>)))))) = Inr out"
    by (rule ebind_Inr)
  from r8 obtain key2 where
    r9: "ebind (split seed (1 / 2) key2 (length (df_rows Xrem))) (\<lambda>(test, priv).
     ebind (iloc Xrem test) (\<lambda>X_test'.
     ebind (iloc Xrem priv) (\<lambda>X_priv'.
     ebind (iloc yrem test) (\<lambda>y_test'.
     ebind (iloc yrem priv) (\<lambda>y_priv'.
       Inr \<lparr>X_train = Xtr, y_train = ytr, X_test = X_test', y_test = y_test',
            X_priv = X_priv', y_priv = y_priv', chosen = ch\<rparr>))))) = Inr out"
    by (rule ebind_Inr)
  from r9 obtain tp where s2': "split seed (1 / 2) key2 (length (df_rows Xrem)) = Inr tp"
    and r10': "(case tp of (test, priv) \<Rightarrow>
     ebind (iloc Xrem test) (\<lambda>X_test'.
     ebind (iloc Xrem priv) (\<lambda>X_priv'.
     ebind (iloc yrem test) (\<lambda>y_test'.
     ebind (iloc yrem priv) (\<lambda>y_priv'.
       Inr \<lparr>X_train = Xtr, y_train = ytr, X_test = X_test', y_test = y_test',
            X_priv = X_priv', y_priv = y_priv', chosen = ch\<rparr>))))) = Inr out"
    by (rule ebind_Inr)
  obtain test priv where tp: "tp = (test, priv)" by (cases tp)
  note s2 = s2'[unfolded tp] and r10 = r10'[unfolded tp prod.case]
  from r10 obtain Xte where Xte: "iloc Xrem test = Inr Xte"
    and r11: "ebind (iloc Xrem priv) (\<lambda>X_priv'.
     ebind (iloc yrem test) (\<lambda>y_test'.
     ebind (iloc yrem priv) (\<lambda>y_priv'.
       Inr \<lparr>X_train = Xtr, y_train = ytr, X_test = Xte, y_test = y_test',
            X_priv = X_priv', y_priv = y_priv', chosen = ch\<rparr>))) = Inr out"
    by (rule ebind_Inr)
  from r11 obtain Xpr where Xpr: "iloc Xrem priv = Inr Xpr"
    and r12: "ebind (iloc yrem test) (\<lambda>y_test'.
     ebind (iloc yrem priv) (\<lambda>y_priv'.
       Inr \<lparr>X_train = Xtr, y_train = ytr, X_test = Xte, y_test = y_test',
            X_priv = Xpr, y_priv = y_priv', chosen = ch\<rparr>)) = Inr out"
    by (rule ebind_Inr)
  from r12 obtain yte where yte: "iloc yrem test = Inr yte"
    and r13: "ebind (iloc yrem priv) (\<lambda>y_priv'.
       Inr \<lparr>X_train = Xtr, y_train = ytr, X_test = Xte, y_test = yte,
            X_priv = Xpr, y_priv = y_priv', chosen = ch\<rparr>) = Inr out"
    by (rule ebind_Inr)
  from r13 obtain ypr where ypr: "iloc yrem priv = Inr ypr"
    and out: "Inr \<lparr>X_train = Xtr, y_train = ytr, X_test = Xte, y_test = yte,
            X_priv = Xpr, y_priv = ypr, chosen = ch\<rparr> = (Inr out :: error + outputs)"
    by (rule ebind_Inr)
  from out have o: "X_train out = Xtr" "y_train out = ytr" "X_test out = Xte" "y_test out = yte"
    "X_priv out = Xpr" "y_priv out = ypr"
    by auto
  have iX: "df_index X = df_index df" and iy: "df_index y = df_index df"
    using X y by (simp_all add: getitem_cols_index)
  then have lX: "length (df_rows X) = length (df_rows df)"
    by (metis df_index_def length_map)
  have lrem: "length (df_rows Xrem) = length rem" using Xrem by (rule iloc_index(2))
  show thesis
  proof (rule that[of key1 train rem key2 test priv for key1])
    show "split seed (3 / 10) (strat ch) (length (df_rows df)) = Inr (train, rem)"
      using s1 lX by simp
    show "split seed (1 / 2) key2 (length rem) = Inr (test, priv)"
      using s2 lrem by simp
    show "df_index (X_train out) = map ((!) (df_index df)) train"
      using iloc_index(1)[OF Xtr] iX o by simp
    show "df_index (X_test out) = map ((!) (map ((!) (df_index df)) rem)) test"
      using iloc_index(1)[OF Xte] iloc_index(1)[OF Xrem] iX o by simp
    show "df_index (X_priv out) = map ((!) (map ((!) (df_index df)) rem)) priv"
      using iloc_index(1)[OF Xpr] iloc_index(1)[OF Xrem] iX o by simp
    show "df_index (y_train out) = df_index (X_train out)"
      using iloc_index(1)[OF Xtr] iloc_index(1)[OF ytr] iX iy o by simp
    show "df_index (y_test out) = df_index (X_test out)"
      using iloc_index(1)[OF Xte] iloc_index(1)[OF yte] iloc_index(1)[OF Xrem]
        iloc_index(1)[OF yrem] iX iy o by simp
    show "df_index (y_priv out) = df_index (X_priv out)"
      using iloc_index(1)[OF Xpr] iloc_index(1)[OF ypr] iloc_index(1)[OF Xrem]
        iloc_index(1)[OF yrem] iX iy o by simp
  qed
qed

lemma partitions_first_held_out: "partitions first_held_out"
  by (auto simp: partitions_def first_held_out_def Let_def)

lemmas main_eval =
  main_def getitem_cols_def feature_cols_def cols_to_drop_def META_COLS_def LEAKY_COLS_def
  iloc_def loc_def first_held_out_def df_index_def

text \<open>
  C4: whenever both splits succeed, on a frame with distinct index labels and with a
  splitter that returns a partition of the positions, the index labels of train, test and
  private test are pairwise disjoint and together are the index labels of the frame; the
  label frames carry the same index labels as the feature frames.
\<close>

theorem partition_covers:
  assumes "partitions split" and "distinct (df_index df)"
    and "main py split seed df = Inr out"
  shows "set (df_index (X_train out)) \<inter> set (df_index (X_test out)) = {}
     \<and> set (df_index (X_train out)) \<inter> set (df_index (X_priv out)) = {}
     \<and> set (df_index (X_test out)) \<inter> set (df_index (X_priv out)) = {}
     \<and> set (df_index (X_train out)) \<union> set (df_index (X_test out)) \<union> set (df_index (X_priv out))
         = set (df_index df)
     \<and> distinct (df_index (X_train out) @ df_index (X_test out) @ df_index (X_priv out))
     \<and> df_index (y_train out) = df_index (X_train out)
     \<and> df_index (y_test out) = df_index (X_test out)
     \<and> df_index (y_priv out) = df_index (X_priv out)"
  using assms(3)
proof (rule main_indexes)
  fix train rem test priv key1 key2
  assume s1: "split seed (3 / 10) key1 (length (df_rows df)) = Inr (train, rem)"
    and s2: "split seed (1 / 2) key2 (length rem) = Inr (test, priv)"
    and tr: "df_index (X_train out) = map ((!) (df_index df)) train"
    and te: "df_index (X_test out) = map ((!) (map ((!) (df_index df)) rem)) test"
    and pr: "df_index (X_priv out) = map ((!) (map ((!) (df_index df)) rem)) priv"
    and y: "df_index (y_train out) = df_index (X_train out)"
      "df_index (y_test out) = df_index (X_test out)"
      "df_index (y_priv out) = df_index (X_priv out)"
  let ?idx = "df_index df" and ?rem = "map ((!) (df_index df)) rem"
  from assms(1) s1 have p1: "distinct (train @ rem)" "set (train @ rem) = {..<length ?idx}"
    by (auto simp: partitions_def df_index_def)
  from assms(1) s2 have p2: "distinct (test @ priv)" "set (test @ priv) = {..<length ?rem}"
    by (auto simp: partitions_def)
  note a = picks_partition[OF assms(2) p1]
  from a(1) have drem: "distinct ?rem" by simp
  note b = picks_partition[OF drem p2]
  from a(1) have d1: "distinct (map ((!) ?idx) train)"
    and disj1: "set (map ((!) ?idx) train) \<inter> set ?rem = {}"
    by simp_all
  from b(1) have d2: "distinct (map ((!) ?rem) test)" "distinct (map ((!) ?rem) priv)"
    and disj2: "set (map ((!) ?rem) test) \<inter> set (map ((!) ?rem) priv) = {}"
    by simp_all
  from b(2) have sub: "set (map ((!) ?rem) test) \<subseteq> set ?rem" "set (map ((!) ?rem) priv) \<subseteq> set ?rem"
    by blast+
  have 1: "set (df_index (X_train out)) \<inter> set (df_index (X_test out)) = {}"
    unfolding tr te using disj1 sub(1) by blast
  have 2: "set (df_index (X_train out)) \<inter> set (df_index (X_priv out)) = {}"
    unfolding tr pr using disj1 sub(2) by blast
  have 3: "set (df_index (X_test out)) \<inter> set (df_index (X_priv out)) = {}"
    unfolding te pr using disj2 .
  have 4: "set (df_index (X_train out)) \<union> set (df_index (X_test out)) \<union> set (df_index (X_priv out))
         = set (df_index df)"
    unfolding tr te pr using a(2) b(2) by blast
  have app3: "distinct (A @ B @ C)"
    if "distinct A" "distinct B" "distinct C" "set A \<inter> set B = {}" "set A \<inter> set C = {}"
      "set B \<inter> set C = {}" for A B C :: "nat list"
    using that by auto
  have dd: "distinct (df_index (X_train out))" "distinct (df_index (X_test out))"
    "distinct (df_index (X_priv out))"
    unfolding tr te pr using d1 d2 by - assumption+
  have 5: "distinct (df_index (X_train out) @ df_index (X_test out) @ df_index (X_priv out))"
    using dd 1 2 3 by (rule app3)
  show ?thesis by (intro conjI 1 2 3 4 5 y)
qed

theorem partition_covers_witness:
  "partitions first_held_out
   \<and> distinct (df_index (region_frame [(Str ''D'', Num 84), (Str ''D'', Num 84), (Str ''D'', Null), (Str ''D'', Num 84)]))
   \<and> (\<exists>out. main no_text first_held_out 123
          (region_frame [(Str ''D'', Num 84), (Str ''D'', Num 84), (Str ''D'', Null), (Str ''D'', Num 84)]) = Inr out
        \<and> df_index (X_train out) = [2, 3] \<and> df_index (X_test out) = [1] \<and> df_index (X_priv out) = [0]
        \<and> set (df_index (X_train out)) \<union> set (df_index (X_test out)) \<union> set (df_index (X_priv out))
            = {0, 1, 2, 3})"
proof -
  let ?df = "region_frame [(Str ''D'', Num 84), (Str ''D'', Num 84), (Str ''D'', Null), (Str ''D'', Num 84)]"
  have idx: "df_index ?df = [0, 1, 2, 3]"
    by (simp add: df_index_def region_frame_def enumerate_eq_zip upt_rec)
  then have d: "distinct (df_index ?df)" by simp
  obtain out where run: "main no_text first_held_out 123 ?df = Inr out"
    and parts: "df_index (X_train out) = [2, 3]" "df_index (X_test out) = [1]"
      "df_index (X_priv out) = [0]"
    by (simp add: main_eval strat_eval)
  from partition_covers[OF partitions_first_held_out d run] idx
  have "set (df_index (X_train out)) \<union> set (df_index (X_test out)) \<union> set (df_index (X_priv out))
            = {0, 1, 2, 3}"
    by simp
  with partitions_first_held_out d run parts show ?thesis by blast
qed

end
